theory Spec2Isabelle
  imports Main "HOL-Library.Sublist"
begin

section \<open>Strip-count derivation: \<open>BaseSCMClient._get_p_number\<close>\<close>

text \<open>
  Python strings are modelled as \<^typ>\<open>string\<close>; \<open>str.startswith\<close> is \<^const>\<open>prefix\<close> and
  \<open>str.count('/')\<close> counts the occurrences of the one-character separator.
\<close>

definition slash :: char where
  "slash = CHR ''/''"

definition count_slash :: "string \<Rightarrow> nat" where
  "count_slash s = count_list s slash"

text \<open>
  \<^verbatim>\<open>
  def _get_p_number(self, base_path, base_dir):
      if base_path and base_dir.startswith(base_path):
          return base_path.count('/') + 1
      else:
          return -1
  \<close>
\<close>

definition get_p_number :: "string \<Rightarrow> string \<Rightarrow> int" where
  "get_p_number base_path base_dir =
     (if base_path \<noteq> [] \<and> prefix base_path base_dir
      then int (count_slash base_path) + 1
      else - 1)"

text \<open>
  The segments of a path in the sense of the specification: the pieces between
  separators, as \<open>str.split('/')\<close> returns them.
\<close>

fun split_on :: "char \<Rightarrow> string \<Rightarrow> string list" where
  "split_on c [] = [[]]"
| "split_on c (x # xs) =
     (if x = c then [] # split_on c xs
      else (case split_on c xs of
              [] \<Rightarrow> [[x]]
            | w # ws \<Rightarrow> (x # w) # ws))"

definition segments :: "string \<Rightarrow> string list" where
  "segments s = split_on slash s"

lemma split_on_not_Nil: "split_on c s \<noteq> []"
  by (induction s) (auto split: list.splits)

lemma length_split_on: "length (split_on c s) = Suc (count_list s c)"
proof (induction s)
  case Nil
  show ?case by simp
next
  case (Cons x xs)
  then show ?case
    by (cases "split_on c xs") (auto simp: split_on_not_Nil)
qed

lemma length_segments: "length (segments s) = Suc (count_slash s)"
  by (simp add: segments_def count_slash_def length_split_on)

text \<open>
  C1 (as stated): on a non-empty base path that is a prefix of the working subpath the
  result would be the number of \<open>/\<close>-separated segments of the base path plus one.
  For base path \<open>a/b\<close> and subpath \<open>a/b/c\<close> the base path has two segments, and the
  function returns 2, not 3.
\<close>

theorem get_p_number_segments_plus_one_counterexample:
  "''a/b'' \<noteq> [] \<and> prefix ''a/b'' ''a/b/c'' \<and> length (segments ''a/b'') = 2 \<and>
   get_p_number ''a/b'' ''a/b/c'' = 2 \<and>
   get_p_number ''a/b'' ''a/b/c'' \<noteq> int (length (segments ''a/b'')) + 1"
  by (simp add: get_p_number_def segments_def count_slash_def slash_def)

text \<open>
  C1 (amended): on a non-empty base path that is a prefix of the working subpath,
  \<open>_get_p_number\<close> returns the number of \<open>/\<close> characters of the base path plus one,
  which is the number of its \<open>/\<close>-separated segments; on every other pair it returns
  the sentinel -1.
\<close>

theorem get_p_number_amended:
  "(base_path \<noteq> [] \<and> prefix base_path base_dir \<longrightarrow>
      get_p_number base_path base_dir = int (count_slash base_path) + 1 \<and>
      get_p_number base_path base_dir = int (length (segments base_path))) \<and>
   (\<not> (base_path \<noteq> [] \<and> prefix base_path base_dir) \<longrightarrow>
      get_p_number base_path base_dir = - 1)"
  by (simp add: get_p_number_def length_segments)

theorem get_p_number_amended_witness:
  "get_p_number ''a/b'' ''a/b/c'' = 2 \<and> length (segments ''a/b'') = 2 \<and>
   get_p_number '''' ''a/b/c'' = - 1 \<and> get_p_number ''x/y'' ''a/b/c'' = - 1"
  using get_p_number_amended [of "''a/b''" "''a/b/c''"]
    get_p_number_amended [of "''''" "''a/b/c''"]
    get_p_number_amended [of "''x/y''" "''a/b/c''"]
  by (simp add: segments_def count_slash_def slash_def)


section \<open>Prefix stripping: \<open>BaseSCMClient._strip_p_num_slashes\<close>\<close>

text \<open>
  \<^verbatim>\<open>
  def _strip_p_num_slashes(self, files, p_num):
      if p_num > 0:
          regex = re.compile(r'[^/]*/+')
          return [regex.sub('', f, p_num) for f in files]
      else:
          return files
  \<close>
  \<open>match_seg s\<close> is a match of the pattern \<open>[^/]*/+\<close> at the start of \<open>s\<close>: the greedy
  \<open>[^/]*\<close> takes every character up to the first separator, \<open>/+\<close> needs one separator
  there and takes the whole run. It returns what follows the match, and \<open>None\<close> when the
  pattern does not match at this position. \<open>re_sub n s\<close> is \<open>regex.sub('', s, n)\<close> for a
  count \<open>n\<close>: the leftmost matches are deleted, the scan resumes after each match, and a
  character at which nothing matches is copied. (The source guards the call with
  \<open>p_num > 0\<close>, so the count 0, which means "no limit" to \<open>re.sub\<close>, is never passed; the
  pattern cannot match the empty string.)
\<close>

definition match_seg :: "string \<Rightarrow> string option" where
  "match_seg s =
     (let rest = dropWhile (\<lambda>c. c \<noteq> slash) s
      in if rest = [] then None else Some (dropWhile (\<lambda>c. c = slash) rest))"

fun re_sub :: "nat \<Rightarrow> string \<Rightarrow> string" where
  "re_sub 0 s = s"
| "re_sub (Suc n) [] = []"
| "re_sub (Suc n) (c # cs) =
     (case match_seg (c # cs) of
        Some rest \<Rightarrow> re_sub n rest
      | None \<Rightarrow> c # re_sub (Suc n) cs)"

definition strip_p_num_slashes :: "string list \<Rightarrow> int \<Rightarrow> string list" where
  "strip_p_num_slashes files p_num =
     (if p_num > 0 then map (re_sub (nat p_num)) files else files)"


text \<open>
  The number of separator runs of a filename, and the relation "\<open>r\<close> is \<open>f\<close> without its
  first \<open>n\<close> path segments", a segment being a name without separators followed by a run
  of one or more separators that the rest does not continue (adjacent separators count
  as one).
\<close>

fun slash_runs :: "string \<Rightarrow> nat" where
  "slash_runs [] = 0"
| "slash_runs [c] = (if c = slash then 1 else 0)"
| "slash_runs (c # d # s) = (if c = slash \<and> d \<noteq> slash then 1 else 0) + slash_runs (d # s)"

definition no_leading_slash :: "string \<Rightarrow> bool" where
  "no_leading_slash r = (case r of [] \<Rightarrow> True | c # _ \<Rightarrow> c \<noteq> slash)"

inductive strips :: "nat \<Rightarrow> string \<Rightarrow> string \<Rightarrow> bool" where
  strips_none: "strips 0 f f"
| strips_step: "slash \<notin> set name \<Longrightarrow> no_leading_slash r \<Longrightarrow> strips n r r' \<Longrightarrow>
     strips (Suc n) (name @ replicate (Suc k) slash @ r) r'"


lemma dropWhile_slashes:
  "dropWhile (\<lambda>c. c = slash) (replicate k slash @ r) = dropWhile (\<lambda>c. c = slash) r"
  by (induction k) auto

lemma no_leading_dropWhile: "no_leading_slash r \<Longrightarrow> dropWhile (\<lambda>c. c = slash) r = r"
  by (cases r) (auto simp: no_leading_slash_def)

lemma no_leading_slash_dropWhile: "no_leading_slash (dropWhile (\<lambda>c. c = slash) s)"
  by (induction s) (auto simp: no_leading_slash_def)

lemma dropWhile_name:
  "slash \<notin> set name \<Longrightarrow>
   dropWhile (\<lambda>c. c \<noteq> slash) (name @ slash # xs) = slash # xs"
  by (induction name) auto

lemma match_seg_decomp:
  assumes "slash \<notin> set name" and "no_leading_slash r"
  shows "match_seg (name @ replicate (Suc k) slash @ r) = Some r"
proof -
  have "dropWhile (\<lambda>c. c \<noteq> slash) (name @ replicate (Suc k) slash @ r)
        = slash # replicate k slash @ r"
    using assms(1) dropWhile_name [of name "replicate k slash @ r"] by simp
  then show ?thesis
    using assms(2) by (simp add: match_seg_def dropWhile_slashes no_leading_dropWhile)
qed

lemma match_seg_None: "slash \<notin> set s \<Longrightarrow> match_seg s = None"
  by (simp add: match_seg_def)

lemma takeWhile_slashes:
  "takeWhile (\<lambda>c. c = slash) s = replicate (length (takeWhile (\<lambda>c. c = slash) s)) slash"
  by (induction s) auto

lemma decompose:
  assumes "slash \<in> set s"
  shows "\<exists>name k r. s = name @ replicate (Suc k) slash @ r \<and> slash \<notin> set name \<and>
           no_leading_slash r"
proof -
  define name where "name = takeWhile (\<lambda>c. c \<noteq> slash) s"
  define rest where "rest = dropWhile (\<lambda>c. c \<noteq> slash) s"
  define r where "r = dropWhile (\<lambda>c. c = slash) rest"
  have s: "s = name @ rest" by (simp add: name_def rest_def)
  have nm: "slash \<notin> set name" unfolding name_def by (auto dest: set_takeWhileD)
  have "rest \<noteq> []" using assms by (auto simp: rest_def)
  moreover have "hd rest = slash" using assms hd_dropWhile [of "\<lambda>c. c \<noteq> slash" s]
    by (auto simp: rest_def)
  ultimately obtain t where t: "rest = slash # t" by (cases rest) auto
  have "rest = takeWhile (\<lambda>c. c = slash) rest @ r" by (simp add: r_def)
  moreover obtain k where "takeWhile (\<lambda>c. c = slash) rest = replicate (Suc k) slash"
    using takeWhile_slashes [of rest] t by (cases "length (takeWhile (\<lambda>c. c = slash) rest)") auto
  ultimately have "s = name @ replicate (Suc k) slash @ r" using s by simp
  moreover have "no_leading_slash r" unfolding r_def by (rule no_leading_slash_dropWhile)
  ultimately show ?thesis using nm by blast
qed

lemma re_sub_no_slash: "slash \<notin> set s \<Longrightarrow> re_sub n s = s"
proof (induction s arbitrary: n)
  case Nil
  show ?case by (cases n) auto
next
  case (Cons c cs)
  then show ?case by (cases n) (auto simp: match_seg_None)
qed

lemma re_sub_Suc:
  "re_sub (Suc n) s = (case match_seg s of Some rest \<Rightarrow> re_sub n rest | None \<Rightarrow> s)"
proof (cases "slash \<in> set s")
  case True
  then obtain name k r where "s = name @ replicate (Suc k) slash @ r" "slash \<notin> set name"
    "no_leading_slash r" using decompose by blast
  then have m: "match_seg s = Some r" by (simp add: match_seg_decomp del: replicate.simps)
  from True obtain c cs where "s = c # cs" by (cases s) auto
  with m show ?thesis by simp
next
  case False
  then show ?thesis using re_sub_no_slash [of s "Suc n"] by (simp add: match_seg_None)
qed

lemma slash_runs_no_slash: "slash \<notin> set s \<Longrightarrow> slash_runs s = 0"
  by (induction s rule: slash_runs.induct) auto

lemma slash_runs_slashes:
  "no_leading_slash r \<Longrightarrow> slash_runs (replicate (Suc k) slash @ r) = Suc (slash_runs r)"
proof (induction k)
  case 0
  then show ?case by (cases r) (auto simp: no_leading_slash_def)
next
  case (Suc k)
  then show ?case by simp
qed

lemma slash_runs_name:
  "slash \<notin> set name \<Longrightarrow> slash_runs (name @ slash # xs) = slash_runs (slash # xs)"
proof (induction name)
  case Nil
  show ?case by simp
next
  case (Cons c cs)
  then show ?case by (cases cs) auto
qed

lemma slash_runs_decomp:
  assumes "slash \<notin> set name" and "no_leading_slash r"
  shows "slash_runs (name @ replicate (Suc k) slash @ r) = Suc (slash_runs r)"
  using slash_runs_name [OF assms(1), of "replicate k slash @ r"] slash_runs_slashes [OF assms(2), of k]
  by simp

lemma strips_re_sub: "strips (min n (slash_runs f)) f (re_sub n f)"
proof (induction n arbitrary: f)
  case 0
  show ?case by (simp add: strips_none)
next
  case (Suc n)
  show ?case
  proof (cases "slash \<in> set f")
    case True
    then obtain name k r where d: "f = name @ replicate (Suc k) slash @ r" "slash \<notin> set name"
      "no_leading_slash r" using decompose by blast
    then have m: "match_seg f = Some r" by (simp add: match_seg_decomp del: replicate.simps)
    have runs: "slash_runs f = Suc (slash_runs r)" using d slash_runs_decomp by simp
    have "strips (Suc (min n (slash_runs r))) (name @ replicate (Suc k) slash @ r) (re_sub n r)"
      using d(2,3) Suc.IH [of r] by (rule strips_step)
    then show ?thesis using d(1) m runs by (simp add: re_sub_Suc del: re_sub.simps replicate.simps)
  next
    case False
    then show ?thesis
      by (simp add: re_sub_no_slash slash_runs_no_slash strips_none del: re_sub.simps)
  qed
qed


lemma slash_runs_zero: "slash_runs s = 0 \<Longrightarrow> slash \<notin> set s"
proof
  assume z: "slash_runs s = 0" and "slash \<in> set s"
  then obtain name k r where "s = name @ replicate (Suc k) slash @ r" "slash \<notin> set name"
    "no_leading_slash r" using decompose by blast
  then have "slash_runs s = Suc (slash_runs r)" using slash_runs_decomp by simp
  with z show False by simp
qed

lemma re_sub_runs_left: "slash_runs (re_sub n f) = slash_runs f - n"
proof (induction n arbitrary: f)
  case 0
  show ?case by simp
next
  case (Suc n)
  show ?case
  proof (cases "slash \<in> set f")
    case True
    then obtain name k r where d: "f = name @ replicate (Suc k) slash @ r" "slash \<notin> set name"
      "no_leading_slash r" using decompose by blast
    then have m: "match_seg f = Some r" by (simp add: match_seg_decomp del: replicate.simps)
    have "slash_runs f = Suc (slash_runs r)" using d slash_runs_decomp by simp
    then show ?thesis using m Suc.IH [of r] by (simp add: re_sub_Suc del: re_sub.simps)
  next
    case False
    then show ?thesis by (simp add: re_sub_no_slash slash_runs_no_slash del: re_sub.simps)
  qed
qed

text \<open>
  C2 (as stated): a positive strip count would remove exactly that many leading segments
  from every filename. The filename \<open>c\<close> has no segment to remove: with strip count 1
  it is returned as it is.
\<close>

theorem strip_p_num_slashes_exactly_counterexample:
  "strip_p_num_slashes [''c''] 1 = [''c''] \<and> slash_runs ''c'' = 0 \<and>
   \<not> strips (nat 1) ''c'' ''c''"
proof -
  have "\<not> strips (Suc 0) ''c'' ''c''"
    by (auto elim!: strips.cases simp: slash_def append_eq_Cons_conv)
  then show ?thesis
    by (simp add: strip_p_num_slashes_def match_seg_def slash_def)
qed

text \<open>
  C2 (amended): a non-positive strip count returns the list unchanged; a positive strip
  count \<open>p\<close> removes from each filename its first \<open>p\<close> path segments when the filename
  has at least \<open>p\<close> separator runs, and all of its separator-terminated segments
  otherwise (so what is left of such a filename has no separator), adjacent separators
  counting as one.
\<close>

theorem strip_p_num_slashes_amended:
  "(p_num \<le> 0 \<longrightarrow> strip_p_num_slashes files p_num = files) \<and>
   (0 < p_num \<longrightarrow>
      list_all2 (\<lambda>f r. strips (min (nat p_num) (slash_runs f)) f r \<and>
                        (slash_runs f < nat p_num \<longrightarrow> slash \<notin> set r))
        files (strip_p_num_slashes files p_num))"
proof -
  have "strips (min n (slash_runs f)) f (re_sub n f) \<and>
        (slash_runs f < n \<longrightarrow> slash \<notin> set (re_sub n f))" for n f
    using strips_re_sub [of n f] re_sub_runs_left [of n f] slash_runs_zero [of "re_sub n f"]
    by auto
  then show ?thesis
    by (simp add: strip_p_num_slashes_def list_all2_map2 list_all2_same)
qed

theorem strip_p_num_slashes_amended_witness:
  "strip_p_num_slashes [''x//y/z'', ''a//b/c''] 2 = [''z'', ''c''] \<and>
   strip_p_num_slashes [''a//b/c''] 1 = [''b/c''] \<and>
   strips 2 ''x//y/z'' ''z'' \<and> strips 2 ''a//b/c'' ''c'' \<and>
   strip_p_num_slashes [''x//y/z'', ''a//b/c''] 0 = [''x//y/z'', ''a//b/c''] \<and>
   strip_p_num_slashes [''x//y/z''] (- 1) = [''x//y/z'']"
proof -
  have e: "strip_p_num_slashes [''x//y/z'', ''a//b/c''] 2 = [''z'', ''c'']"
    "strip_p_num_slashes [''a//b/c''] 1 = [''b/c'']"
    by (simp_all add: strip_p_num_slashes_def match_seg_def slash_def numeral_2_eq_2)
  have r: "slash_runs ''x//y/z'' = 2" "slash_runs ''a//b/c'' = 2"
    by (simp_all add: slash_def)
  have "strips (min (nat 2) (slash_runs ''x//y/z'')) ''x//y/z'' ''z'' \<and>
        strips (min (nat 2) (slash_runs ''a//b/c'')) ''a//b/c'' ''c''"
    using strip_p_num_slashes_amended [of 2 "[''x//y/z'', ''a//b/c'']"]
    unfolding e by (simp del: slash_runs.simps)
  then have s: "strips 2 ''x//y/z'' ''z'' \<and> strips 2 ''a//b/c'' ''c''"
    unfolding r by simp
  show ?thesis
    using s strip_p_num_slashes_amended [of 0 "[''x//y/z'', ''a//b/c'']"]
      strip_p_num_slashes_amended [of "- 1" "[''x//y/z'']"]
    by (simp add: e)
qed

section \<open>Patch application: \<open>BaseSCMClient.apply_patch\<close>\<close>

text \<open>
  Exceptions are values. \<open>SCMError cmd output\<close> is the exception raised with the message
  \<open>'Failed to execute command: %s\n%s' % (cmd, patch_output)\<close>; it keeps the two
  format arguments. \<open>OtherError\<close> stands for any other exception that a collaborator
  lets escape.
\<close>

datatype error =
    SCMError "string list" string
  | SCMClientDependencyError
  | NotImplementedError
  | OtherError string

text \<open>
  What a call does besides returning: the records it logs, the warning it issues, the
  command it runs, the hooks it calls, in the order of the source.
\<close>

datatype event =
    LogWarning string
  | LogError string
  | Execute "string list"
  | ApplyPatchForEmptyFiles string int bool
  | CheckDependencies
  | RemovedInRBTools50Warning

text \<open>\<open>PatchResult(applied=..., patch_output=...)\<close>.\<close>

record patch_result =
  applied :: bool
  patch_output :: string

text \<open>
  The collaborators of \<open>apply_patch\<close> that are not part of the function: the builtin
  \<open>int\<close> on a string (\<open>None\<close> is its \<open>ValueError\<close>), \<open>rbtools.utils.process.execute\<close>
  called with \<open>extra_ignore_errors=(2,)\<close> and \<open>return_error_code=True\<close> (it returns the
  exit code and the output, or lets an exception escape), reading the patch file back
  (\<open>Inl\<close> is the text of the \<open>IOError\<close>), and the two methods a backend overrides,
  \<open>supports_empty_files\<close> and \<open>apply_patch_for_empty_files\<close>.
\<close>

record collaborators =
  py_int :: "string \<Rightarrow> int option"
  execute :: "string list \<Rightarrow> error + int \<times> string"
  read_file :: "string \<Rightarrow> string + string"
  supports_empty_files :: bool
  apply_patch_for_empty_files :: "string \<Rightarrow> int \<Rightarrow> bool \<Rightarrow> error + bool"

text \<open>The \<open>%d\<close> conversion of an integer.\<close>

fun show_nat :: "nat \<Rightarrow> string" where
  "show_nat n =
     (if n < 10 then [''0123456789'' ! n]
      else show_nat (n div 10) @ [''0123456789'' ! (n mod 10)])"

declare show_nat.simps [simp del]

definition show_int :: "int \<Rightarrow> string" where
  "show_int i = (if i < 0 then CHR ''-'' # show_nat (nat (- i)) else show_nat (nat i))"

definition only_garbage_in_patch :: string where
  "only_garbage_in_patch =
     ''patch: **** Only garbage was found in the patch input.'' @ [CHR 0x0A]"

definition fatal_preamble :: string where
  "fatal_preamble = ''patch: **** ''"

text \<open>
  \<open>p_num = p or self._get_p_number(base_path, base_dir)\<close> is a string (a non-empty
  \<open>p\<close>) or an integer (the derived value: \<open>None\<close> and the empty string are both false);
  \<open>int(p_num)\<close> parses the one and returns the other.
\<close>

datatype pyval = PyStr string | PyInt int

definition int_of_pyval :: "(string \<Rightarrow> int option) \<Rightarrow> pyval \<Rightarrow> int option" where
  "int_of_pyval parse v = (case v of PyStr s \<Rightarrow> parse s | PyInt n \<Rightarrow> Some n)"

text \<open>
  \<^verbatim>\<open>
  p_num = p or self._get_p_number(base_path, base_dir)
  ...
  try:
      p_num = int(p_num)
  except ValueError:
      p_num = 0
      logging.warning('Invalid -p value: %s; assuming zero.', p_num)
  \<close>
  The warning is formatted after the assignment, so it shows 0.
\<close>

definition resolve_p_num ::
  "(string \<Rightarrow> int option) \<Rightarrow> string \<Rightarrow> string \<Rightarrow> string option \<Rightarrow> int \<times> event list"
where
  "resolve_p_num parse base_path base_dir p =
     (let p_num = (case p of
                     Some s \<Rightarrow> if s \<noteq> [] then PyStr s
                              else PyInt (get_p_number base_path base_dir)
                   | None \<Rightarrow> PyInt (get_p_number base_path base_dir))
      in case int_of_pyval parse p_num of
           Some n \<Rightarrow> (n, [])
         | None \<Rightarrow> (0, [LogWarning ''Invalid -p value: 0; assuming zero.'']))"

text \<open>
  \<^verbatim>\<open>
  cmd = ['patch']
  if revert:
      cmd.append('-R')
  ...
  if p_num is not None:
      if p_num >= 0:
          cmd.append('-p%d' % p_num)
      else:
          logging.warning('Unsupported -p value: %d; assuming zero.', p_num)
  cmd.extend(['-i', six.text_type(patch_file)])
  \<close>
\<close>

definition patch_cmd :: "bool \<Rightarrow> int \<Rightarrow> string \<Rightarrow> string list" where
  "patch_cmd revert p_num patch_file =
     [''patch''] @ (if revert then [''-R''] else []) @
     (if 0 \<le> p_num then [''-p'' @ show_int p_num] else []) @
     [''-i'', patch_file]"

definition unsupported_p_warning :: "int \<Rightarrow> event list" where
  "unsupported_p_warning p_num =
     (if 0 \<le> p_num then []
      else [LogWarning (''Unsupported -p value: '' @ show_int p_num @ ''; assuming zero.'')])"

text \<open>
  What follows the call of \<open>execute\<close>: the classification of the output, the empty-file
  handling and the result. The bare \<open>return\<close> of the \<open>except IOError\<close> branch returns
  Python's \<open>None\<close>, which is \<open>Inr None\<close> here.
  \<^verbatim>\<open>
  if (patch_output and patch_output.startswith('patch: **** ') and
      patch_output != only_garbage_in_patch):
      raise SCMError('Failed to execute command: %s\n%s' % (cmd, patch_output))
  if self.supports_empty_files():
      try:
          with open(patch_file, 'rb') as f:
              patch = f.read()
      except IOError as e:
          logging.error('Unable to read file %s: %s', patch_file, e)
          return
      patched_empty_files = self.apply_patch_for_empty_files(patch, p_num, revert=revert)
      if (patch_output == only_garbage_in_patch and not patched_empty_files):
          raise SCMError('Failed to execute command: %s\n%s' % (cmd, patch_output))
  return PatchResult(applied=(rc == 0), patch_output=patch_output)
  \<close>
\<close>

definition check_patch_output ::
  "collaborators \<Rightarrow> string \<Rightarrow> int \<Rightarrow> bool \<Rightarrow> string list \<Rightarrow> int \<Rightarrow> string \<Rightarrow>
     event list \<times> (error + patch_result option)"
where
  "check_patch_output env patch_file p_num revert cmd rc out =
     (if out \<noteq> [] \<and> prefix fatal_preamble out \<and> out \<noteq> only_garbage_in_patch
      then ([], Inl (SCMError cmd out))
      else if supports_empty_files env then
        (case read_file env patch_file of
           Inl e \<Rightarrow>
             ([LogError (''Unable to read file '' @ patch_file @ '': '' @ e)], Inr None)
         | Inr patch \<Rightarrow>
             (case apply_patch_for_empty_files env patch p_num revert of
                Inl e \<Rightarrow> ([ApplyPatchForEmptyFiles patch p_num revert], Inl e)
              | Inr patched_empty_files \<Rightarrow>
                  if out = only_garbage_in_patch \<and> \<not> patched_empty_files
                  then ([ApplyPatchForEmptyFiles patch p_num revert], Inl (SCMError cmd out))
                  else ([ApplyPatchForEmptyFiles patch p_num revert],
                        Inr (Some \<lparr>applied = (rc = 0), patch_output = out\<rparr>))))
      else ([], Inr (Some \<lparr>applied = (rc = 0), patch_output = out\<rparr>)))"

text \<open>
  \<open>apply_patch(self, patch_file, base_path, base_dir, p=None, revert=False)\<close>: the events
  of the call and what it raises or returns.
\<close>

definition apply_patch ::
  "collaborators \<Rightarrow> string \<Rightarrow> string \<Rightarrow> string \<Rightarrow> string option \<Rightarrow> bool \<Rightarrow>
     event list \<times> (error + patch_result option)"
where
  "apply_patch env patch_file base_path base_dir p revert =
     (let (p_num, log1) = resolve_p_num (py_int env) base_path base_dir p;
          cmd = patch_cmd revert p_num patch_file;
          log2 = log1 @ unsupported_p_warning p_num @ [Execute cmd]
      in case execute env cmd of
           Inl e \<Rightarrow> (log2, Inl e)
         | Inr (rc, out) \<Rightarrow>
             (let (log3, res) = check_patch_output env patch_file p_num revert cmd rc out
              in (log2 @ log3, res)))"

text \<open>
  A parser of plain decimal literals with an optional sign, for the concrete runs below:
  on these strings it agrees with \<open>int\<close>.
\<close>

definition ascii_nat :: "string \<Rightarrow> nat option" where
  "ascii_nat s =
     (if s = [] \<or> \<not> list_all (\<lambda>c. c \<in> set ''0123456789'') s then None
      else Some (foldl (\<lambda>a c. 10 * a + (of_char c - 48)) 0 s))"

definition ascii_int :: "string \<Rightarrow> int option" where
  "ascii_int s =
     (case s of
        [] \<Rightarrow> None
      | c # ds \<Rightarrow>
          if c = CHR ''-'' then map_option (\<lambda>n. - int n) (ascii_nat ds)
          else if c = CHR ''+'' then map_option int (ascii_nat ds)
          else map_option int (ascii_nat s))"

text \<open>
  Concrete collaborators: a patch tool that exits with \<open>rc\<close> and prints \<open>out\<close>, a patch
  file that reads back as \<open>file\<close>, and a backend with or without empty-file support whose
  \<open>apply_patch_for_empty_files\<close> is the base class's (it raises \<open>NotImplementedError\<close>).
\<close>

definition fixed_env :: "int \<Rightarrow> string \<Rightarrow> string + string \<Rightarrow> bool \<Rightarrow> collaborators" where
  "fixed_env rc out file empty_files =
     \<lparr>py_int = ascii_int,
      execute = (\<lambda>cmd. Inr (rc, out)),
      read_file = (\<lambda>path. file),
      supports_empty_files = empty_files,
      apply_patch_for_empty_files = (\<lambda>patch p_num revert. Inl NotImplementedError)\<rparr>"

lemma fixed_env_simps [simp]:
  "py_int (fixed_env rc out file ef) = ascii_int"
  "execute (fixed_env rc out file ef) cmd = Inr (rc, out)"
  "read_file (fixed_env rc out file ef) path = file"
  "supports_empty_files (fixed_env rc out file ef) = ef"
  by (simp_all add: fixed_env_def)

lemma show_int_digit [simp]:
  "show_int 0 = ''0''" "show_int 1 = ''1''" "show_int 2 = ''2''" "show_int 3 = ''3''"
  "show_int (- 1) = ''-1''"
  by (simp_all add: show_int_def show_nat.simps)

lemma get_p_number_examples [simp]:
  "get_p_number ''a/b'' ''a/b/c'' = 2"
  "get_p_number ''x'' ''x/y'' = 1"
  "get_p_number [] ''src'' = - 1"
  by (simp_all add: get_p_number_def count_slash_def slash_def)

lemma resolve_p_num_no_execute: "Execute c \<notin> set (snd (resolve_p_num parse bp bd p))"
  by (simp add: resolve_p_num_def Let_def split: option.splits)

lemma unsupported_p_warning_no_execute: "Execute c \<notin> set (unsupported_p_warning n)"
  by (simp add: unsupported_p_warning_def)

lemma check_patch_output_no_execute:
  "Execute c \<notin> set (fst (check_patch_output env f n r cmd rc out))"
  by (simp add: check_patch_output_def split: sum.splits)

lemma apply_patch_executed:
  "Execute c \<in> set (fst (apply_patch env f bp bd p r)) \<longleftrightarrow>
   c = patch_cmd r (fst (resolve_p_num (py_int env) bp bd p)) f"
proof -
  obtain n l where rp: "resolve_p_num (py_int env) bp bd p = (n, l)"
    by (cases "resolve_p_num (py_int env) bp bd p")
  have l: "Execute c \<notin> set l"
    using resolve_p_num_no_execute [of c "py_int env" bp bd p] rp by simp
  show ?thesis
  proof (cases "execute env (patch_cmd r n f)")
    case (Inl e)
    then show ?thesis using rp l unsupported_p_warning_no_execute [of c n]
      by (auto simp: apply_patch_def)
  next
    case (Inr x)
    obtain rc out where x: "x = (rc, out)" by (cases x)
    obtain l3 res where cp: "check_patch_output env f n r (patch_cmd r n f) rc out = (l3, res)"
      by (cases "check_patch_output env f n r (patch_cmd r n f) rc out")
    have "Execute c \<notin> set l3"
      using check_patch_output_no_execute [of c env f n r "patch_cmd r n f" rc out] cp by simp
    then show ?thesis using Inr x cp rp l unsupported_p_warning_no_execute [of c n]
      by (auto simp: apply_patch_def)
  qed
qed










text \<open>
  C4: after the patch step has run on a backend that supports empty files, an unreadable
  patch file is logged, and the call returns \<open>None\<close>: there is no \<open>PatchResult\<close>, hence
  no \<open>applied = False\<close> to read.
\<close>

theorem apply_patch_unreadable_patch_file:
  "apply_patch (fixed_env 0 [] (Inl ''[Errno 13] Permission denied'') True)
     ''fix.diff'' ''a/b'' ''a/b/c'' None False =
   ([Execute [''patch'', ''-p2'', ''-i'', ''fix.diff''],
     LogError ''Unable to read file fix.diff: [Errno 13] Permission denied''],
    Inr None)"
  by (simp add: apply_patch_def resolve_p_num_def int_of_pyval_def patch_cmd_def
      unsupported_p_warning_def check_patch_output_def)

text \<open>
  C5 (as stated): every supplied \<open>p\<close> would override the derivation. A supplied empty
  string does not: the strip count is the one derived from \<open>base_path\<close> and \<open>base_dir\<close>,
  and it changes with them.
\<close>

theorem apply_patch_empty_p_counterexample:
  "fst (apply_patch (fixed_env 0 [] (Inr []) False) ''fix.diff'' ''a/b'' ''a/b/c'' (Some []) False)
     = [Execute [''patch'', ''-p2'', ''-i'', ''fix.diff'']] \<and>
   fst (apply_patch (fixed_env 0 [] (Inr []) False) ''fix.diff'' ''x'' ''x/y'' (Some []) False)
     = [Execute [''patch'', ''-p1'', ''-i'', ''fix.diff'']]"
  by (simp add: apply_patch_def resolve_p_num_def int_of_pyval_def patch_cmd_def
      unsupported_p_warning_def check_patch_output_def)

text \<open>
  C5 (amended): every supplied non-empty \<open>p\<close> overrides the derivation: the call does
  not depend on \<open>base_path\<close> and \<open>base_dir\<close>, and when \<open>p\<close> parses as the integer \<open>n\<close>
  the command run is \<open>patch [-R] -p<n> -i <file>\<close> for \<open>n \<ge> 0\<close>, and
  \<open>patch [-R] -i <file>\<close>, with no \<open>-p\<close> argument, for a negative \<open>n\<close>.
\<close>

theorem apply_patch_explicit_p:
  assumes "s \<noteq> []"
  shows "apply_patch env f bp bd (Some s) r = apply_patch env f bp' bd' (Some s) r \<and>
         (py_int env s = Some n \<longrightarrow>
            (Execute c \<in> set (fst (apply_patch env f bp bd (Some s) r))) =
            (c = [''patch''] @ (if r then [''-R''] else []) @
                 (if 0 \<le> n then [''-p'' @ show_int n] else []) @ [''-i'', f]))"
proof -
  have ind: "apply_patch env f bp bd (Some s) r = apply_patch env f bp' bd' (Some s) r"
    using assms by (simp add: apply_patch_def resolve_p_num_def)
  have "fst (resolve_p_num (py_int env) x y (Some s)) = n" if "py_int env s = Some n" for x y
    using assms that by (simp add: resolve_p_num_def int_of_pyval_def)
  then show ?thesis
    using ind by (simp add: apply_patch_executed patch_cmd_def)
qed

theorem apply_patch_explicit_p_witness:
  "apply_patch (fixed_env 0 [] (Inr []) False) ''fix.diff'' ''a/b'' ''a/b/c'' (Some ''3'') True =
   apply_patch (fixed_env 0 [] (Inr []) False) ''fix.diff'' ''x'' ''x/y'' (Some ''3'') True \<and>
   Execute [''patch'', ''-R'', ''-p3'', ''-i'', ''fix.diff'']
     \<in> set (fst (apply_patch (fixed_env 0 [] (Inr []) False)
                   ''fix.diff'' ''a/b'' ''a/b/c'' (Some ''3'') True))"
proof -
  have p: "ascii_int ''3'' = Some 3" by (simp add: ascii_int_def ascii_nat_def)
  show ?thesis
    using apply_patch_explicit_p [of "''3''" "fixed_env 0 [] (Inr []) False" "''fix.diff''"
        "''a/b''" "''a/b/c''" True "''x''" "''x/y''" 3
        "[''patch'', ''-R'', ''-p3'', ''-i'', ''fix.diff'']"]
    by (auto simp: p)
qed

text \<open>
  C10 (as stated): every supplied string that \<open>int\<close> rejects would give \<open>-p0\<close> and a
  warning about the invalid value. The empty string is such a string, and it is never
  parsed: the derived value is used, here -1, so the command has no \<open>-p\<close> argument and
  the warning is the one about an unsupported value.
\<close>

theorem apply_patch_unparsable_empty_counterexample:
  "ascii_int [] = None \<and>
   fst (apply_patch (fixed_env 0 [] (Inr []) False) ''fix.diff'' [] ''src'' (Some []) False)
     = [LogWarning ''Unsupported -p value: -1; assuming zero.'',
        Execute [''patch'', ''-i'', ''fix.diff'']]"
  by (simp add: apply_patch_def resolve_p_num_def int_of_pyval_def patch_cmd_def
      unsupported_p_warning_def check_patch_output_def ascii_int_def)

text \<open>
  C10 (amended): for every supplied non-empty string that \<open>int\<close> rejects, the
  \<open>ValueError\<close> does not leave \<open>apply_patch\<close>: the strip count is 0, a warning is logged
  first, the command \<open>patch [-R] -p0 -i <file>\<close> is run next, and the call goes on with
  the exit code and output of that command as for any other strip count 0.
\<close>

theorem apply_patch_unparsable_p:
  assumes "s \<noteq> []" and "py_int env s = None"
  shows "(\<exists>msg. take 2 (fst (apply_patch env f bp bd (Some s) r)) =
            [LogWarning msg,
             Execute ([''patch''] @ (if r then [''-R''] else []) @ [''-p0'', ''-i'', f])]) \<and>
         snd (apply_patch env f bp bd (Some s) r) =
           (case execute env ([''patch''] @ (if r then [''-R''] else []) @ [''-p0'', ''-i'', f]) of
              Inl e \<Rightarrow> Inl e
            | Inr (rc, out) \<Rightarrow>
                snd (check_patch_output env f 0 r
                       ([''patch''] @ (if r then [''-R''] else []) @ [''-p0'', ''-i'', f]) rc out))"
  using assms
  by (simp add: apply_patch_def resolve_p_num_def int_of_pyval_def patch_cmd_def
      unsupported_p_warning_def split_def Let_def split: sum.splits)

theorem apply_patch_unparsable_p_witness:
  "ascii_int ''abc'' = None \<and>
   (\<exists>msg. fst (apply_patch (fixed_env 0 [] (Inr []) False) ''fix.diff'' ''a/b'' ''a/b/c''
                 (Some ''abc'') False) =
           [LogWarning msg, Execute [''patch'', ''-p0'', ''-i'', ''fix.diff'']]) \<and>
   snd (apply_patch (fixed_env 0 [] (Inr []) False) ''fix.diff'' ''a/b'' ''a/b/c''
          (Some ''abc'') False) =
     Inr (Some \<lparr>applied = True, patch_output = []\<rparr>)"
proof -
  have p: "ascii_int ''abc'' = None" by (simp add: ascii_int_def ascii_nat_def)
  have l: "length (fst (apply_patch (fixed_env 0 [] (Inr []) False) ''fix.diff'' ''a/b'' ''a/b/c''
             (Some ''abc'') False)) = 2"
    by (simp add: apply_patch_def resolve_p_num_def int_of_pyval_def p patch_cmd_def
        unsupported_p_warning_def check_patch_output_def)
  show ?thesis
    using apply_patch_unparsable_p [of "''abc''" "fixed_env 0 [] (Inr []) False" "''fix.diff''"
        "''a/b''" "''a/b/c''" False] l
    by (simp add: p check_patch_output_def)
qed

section \<open>Client lifecycle: \<open>BaseSCMClient.setup\<close> and \<open>has_dependencies\<close>\<close>

text \<open>
  The attributes of the client that the lifecycle reads and writes: \<open>is_setup\<close> and
  \<open>_has_deps\<close> (\<open>None\<close> until the dependencies were checked), as \<open>__init__\<close> sets them.
  The record is extensible, as the class is: a backend's own attributes are the
  extension. \<open>check_dependencies\<close> is the method a backend overrides; it may record
  what it found in the client, and it returns (\<open>None\<close>) or raises.
\<close>

record scmclient =
  is_setup :: bool
  has_deps :: "bool option"

type_synonym 'a check_dependencies =
  "'a scmclient_scheme \<Rightarrow> error option \<times> 'a scmclient_scheme"

definition init_client :: scmclient where
  "init_client = \<lparr>is_setup = False, has_deps = None\<rparr>"

text \<open>
  \<^verbatim>\<open>
  def setup(self) -> None:
      if self.is_setup:
          return
      try:
          self.check_dependencies()
          self._has_deps = True
      except SCMClientDependencyError:
          self._has_deps = False
          raise
      self.is_setup = True
  \<close>
\<close>

definition scm_setup ::
  "'a check_dependencies \<Rightarrow> 'a scmclient_scheme \<Rightarrow>
     event list \<times> (error + unit) \<times> 'a scmclient_scheme"
where
  "scm_setup check_dependencies c =
     (if is_setup c then ([], Inr (), c)
      else (case check_dependencies c of
              (None, c1) \<Rightarrow>
                ([CheckDependencies], Inr (), c1\<lparr>has_deps := Some True, is_setup := True\<rparr>)
            | (Some e, c1) \<Rightarrow>
                if e = SCMClientDependencyError
                then ([CheckDependencies], Inl e, c1\<lparr>has_deps := Some False\<rparr>)
                else ([CheckDependencies], Inl e, c1)))"

text \<open>
  \<^verbatim>\<open>
  def has_dependencies(self, expect_checked: bool = False) -> bool:
      if self._has_deps is None:
          if expect_checked:
              RemovedInRBTools50Warning.warn(...)
          try:
              self.setup()
          except SCMClientDependencyError:
              pass
      return cast(bool, self._has_deps)
  \<close>
  \<open>cast\<close> does nothing at run time: the value returned is \<open>_has_deps\<close> as it is.
  The deprecation warning is the event \<open>RemovedInRBTools50Warning\<close>.
\<close>

definition has_dependencies ::
  "'a check_dependencies \<Rightarrow> bool \<Rightarrow> 'a scmclient_scheme \<Rightarrow>
     event list \<times> (error + bool option) \<times> 'a scmclient_scheme"
where
  "has_dependencies check_dependencies expect_checked c =
     (if has_deps c = None then
        (let warned = (if expect_checked then [RemovedInRBTools50Warning] else [])
         in case scm_setup check_dependencies c of
              (evs, Inr u, c1) \<Rightarrow> (warned @ evs, Inr (has_deps c1), c1)
            | (evs, Inl e, c1) \<Rightarrow>
                if e = SCMClientDependencyError
                then (warned @ evs, Inr (has_deps c1), c1)
                else (warned @ evs, Inl e, c1))
      else ([], Inr (has_deps c), c))"

text \<open>A sequence of \<open>has_dependencies\<close> calls on one client, one per flag.\<close>

fun has_dependencies_calls ::
  "'a check_dependencies \<Rightarrow> bool list \<Rightarrow> 'a scmclient_scheme \<Rightarrow>
     (event list \<times> (error + bool option)) list \<times> 'a scmclient_scheme"
where
  "has_dependencies_calls chk [] c = ([], c)"
| "has_dependencies_calls chk (x # xs) c =
     (case has_dependencies chk x c of
        (evs, res, c1) \<Rightarrow>
          (case has_dependencies_calls chk xs c1 of
             (rs, c2) \<Rightarrow> ((evs, res) # rs, c2)))"

text \<open>Two backends: one whose tools are missing, one whose tools are there.\<close>

definition missing_deps :: "unit check_dependencies" where
  "missing_deps c = (Some SCMClientDependencyError, c)"

definition deps_present :: "unit check_dependencies" where
  "deps_present c = (None, c)"

lemma has_dependencies_cached:
  "has_deps c = Some b \<Longrightarrow> has_dependencies chk x c = ([], Inr (Some b), c)"
  by (simp add: has_dependencies_def)

lemma has_dependencies_calls_cached:
  "has_deps c = Some b \<Longrightarrow>
   has_dependencies_calls chk xs c = (map (\<lambda>x. ([], Inr (Some b))) xs, c)"
  by (induction xs) (simp_all add: has_dependencies_cached)

text \<open>
  C8: \<open>setup\<close> on a client that is set up returns at once: \<open>check_dependencies\<close> is not
  called and the client is unchanged.
\<close>

theorem setup_idempotent:
  "is_setup c \<Longrightarrow> scm_setup check_dependencies c = ([], Inr (), c)"
  by (simp add: scm_setup_def)

theorem setup_idempotent_witness:
  "scm_setup deps_present init_client =
     ([CheckDependencies], Inr (), \<lparr>is_setup = True, has_deps = Some True\<rparr>) \<and>
   is_setup \<lparr>is_setup = True, has_deps = Some True\<rparr> \<and>
   scm_setup missing_deps \<lparr>is_setup = True, has_deps = Some True\<rparr> =
     ([], Inr (), \<lparr>is_setup = True, has_deps = Some True\<rparr>)"
  using setup_idempotent [of "\<lparr>is_setup = True, has_deps = Some True\<rparr>" missing_deps]
  by (simp add: scm_setup_def deps_present_def init_client_def)

text \<open>
  C9: when \<open>setup\<close> has raised \<open>SCMClientDependencyError\<close>, the client holds
  \<open>_has_deps = False\<close>, and every later \<open>has_dependencies\<close> call, whatever its flag,
  returns \<open>False\<close> without calling \<open>check_dependencies\<close> and leaves the client as it
  is; so does any sequence of such calls.
\<close>

theorem has_dependencies_failure_cached:
  assumes "scm_setup chk c = (evs, Inl SCMClientDependencyError, c')"
  shows "has_deps c' = Some False \<and>
         has_dependencies chk expect_checked c' = ([], Inr (Some False), c') \<and>
         has_dependencies_calls chk flags c' = (map (\<lambda>x. ([], Inr (Some False))) flags, c')"
proof -
  from assms have n: "\<not> is_setup c" by (auto simp: scm_setup_def)
  obtain r c1 where k: "chk c = (r, c1)" by (cases "chk c")
  have "has_deps c' = Some False"
  proof (cases r)
    case None
    with assms n k show ?thesis by (simp add: scm_setup_def)
  next
    case (Some e)
    with assms n k show ?thesis by (auto simp: scm_setup_def split: if_splits)
  qed
  then show ?thesis
    by (simp add: has_dependencies_cached has_dependencies_calls_cached)
qed

theorem has_dependencies_failure_cached_witness:
  "scm_setup missing_deps init_client =
     ([CheckDependencies], Inl SCMClientDependencyError, \<lparr>is_setup = False, has_deps = Some False\<rparr>) \<and>
   has_dependencies deps_present True \<lparr>is_setup = False, has_deps = Some False\<rparr> =
     ([], Inr (Some False), \<lparr>is_setup = False, has_deps = Some False\<rparr>) \<and>
   has_dependencies_calls missing_deps [False, True, False] \<lparr>is_setup = False, has_deps = Some False\<rparr> =
     ([([], Inr (Some False)), ([], Inr (Some False)), ([], Inr (Some False))],
      \<lparr>is_setup = False, has_deps = Some False\<rparr>)"
proof -
  have s: "scm_setup missing_deps init_client =
     ([CheckDependencies], Inl SCMClientDependencyError, \<lparr>is_setup = False, has_deps = Some False\<rparr>)"
    by (simp add: scm_setup_def missing_deps_def init_client_def)
  show ?thesis
    using s has_dependencies_failure_cached [OF s, of True "[False, True, False]"]
    by (simp add: has_dependencies_def)
qed

section \<open>Revision resolution (the specification's RevisionResolver)\<close>

text \<open>
  Modelled from the spec: the data of the resolver. \<open>PerforceClient.parse_revision_spec\<close>
  is exercised by \<open>test_p4.py\<close>, but \<open>rbtools/clients/perforce.py\<close> is not among the
  sources. The resolver below follows section 4.1 of the specification, with the
  revision identifiers of section 9 and the RevisionRange of section 3; the backend's
  read-only metadata query (the status of a changelist, \<open>None\<close> when there is no such
  changelist) is a parameter.
\<close>

datatype changelist_status = Submitted | Pending | Shelved

datatype revision_id = Concrete string | CurrentSync | PendingChange string

record revision_range =
  base :: revision_id
  tip :: revision_id
  parent_base :: "revision_id option"
  commit_id :: "string option"

datatype revision_error = InvalidRevisionSpec | TooManyRevisions

definition plain_range :: "revision_id \<Rightarrow> revision_id \<Rightarrow> revision_range" where
  "plain_range b t = \<lparr>base = b, tip = t, parent_base = None, commit_id = None\<rparr>"

text \<open>
  Modelled from the spec: the two-token case of the resolver (the code of
  \<open>PerforceClient.parse_revision_spec\<close> is missing). "Both must resolve to submitted
  (finalized) revisions, and the first must be numerically/chronologically \<open>\<le>\<close> the
  second; any mismatch (one pending or shelved, or out of order) raises an
  InvalidRevisionSpec error." A token that the backend does not know is unresolvable,
  and a token that is not a number cannot be compared: both raise the same error.
\<close>

definition resolve_two ::
  "(string \<Rightarrow> changelist_status option) \<Rightarrow> string \<Rightarrow> string \<Rightarrow> revision_error + revision_range"
where
  "resolve_two status token1 token2 =
     (if status token1 = Some Submitted \<and> status token2 = Some Submitted then
        (case (ascii_nat token1, ascii_nat token2) of
           (Some n1, Some n2) \<Rightarrow>
             if n1 \<le> n2 then Inr (plain_range (Concrete token1) (Concrete token2))
             else Inl InvalidRevisionSpec
         | _ \<Rightarrow> Inl InvalidRevisionSpec)
      else Inl InvalidRevisionSpec)"

text \<open>
  Modelled from the spec: \<open>resolve(tokens)\<close> of section 4.1 (the code of
  \<open>PerforceClient.parse_revision_spec\<close> is missing). No token: the pending changes
  against the current sync point. One token: a pending or shelved change has the pending
  sentinel as tip and the current sync point as base; a submitted change has its
  immediate predecessor as base (changelist 0 has none). Two tokens: \<open>resolve_two\<close>.
  More: TooManyRevisions.
\<close>

definition resolve ::
  "(string \<Rightarrow> changelist_status option) \<Rightarrow> string list \<Rightarrow> revision_error + revision_range"
where
  "resolve status tokens =
     (case tokens of
        [] \<Rightarrow> Inr (plain_range CurrentSync (PendingChange ''default''))
      | [t] \<Rightarrow>
          (case status t of
             None \<Rightarrow> Inl InvalidRevisionSpec
           | Some Submitted \<Rightarrow>
               (case ascii_nat t of
                  None \<Rightarrow> Inl InvalidRevisionSpec
                | Some n \<Rightarrow>
                    if n = 0 then Inl InvalidRevisionSpec
                    else Inr (plain_range (Concrete (show_nat (n - 1))) (Concrete t)))
           | Some _ \<Rightarrow> Inr (plain_range CurrentSync (PendingChange t)))
      | [t1, t2] \<Rightarrow> resolve_two status t1 t2
      | _ \<Rightarrow> Inl TooManyRevisions)"

text \<open>The changelists of \<open>test_parse_revision_spec_two_args\<close>.\<close>

definition test_changes :: "string \<Rightarrow> changelist_status option" where
  "test_changes c =
     (if c = ''99'' \<or> c = ''100'' then Some Submitted
      else if c = ''101'' then Some Pending
      else if c = ''102'' then Some Shelved
      else None)"

lemma ascii_nat_examples [simp]:
  "ascii_nat ''99'' = Some 99" "ascii_nat ''100'' = Some 100"
  "ascii_nat ''101'' = Some 101" "ascii_nat ''102'' = Some 102"
  by (simp_all add: ascii_nat_def)

text \<open>
  C6: two tokens that both resolve to submitted changelists, the first numerically at
  most the second, give the range from the first to the second; an ordering violation,
  or a pending or shelved changelist on either side, raises InvalidRevisionSpec.
\<close>

theorem resolve_two_tokens:
  "(status t1 = Some Submitted \<and> status t2 = Some Submitted \<and>
    ascii_nat t1 = Some n1 \<and> ascii_nat t2 = Some n2 \<and> n1 \<le> n2 \<longrightarrow>
      resolve status [t1, t2] =
        Inr \<lparr>base = Concrete t1, tip = Concrete t2, parent_base = None, commit_id = None\<rparr>) \<and>
   ((ascii_nat t1 = Some n1 \<and> ascii_nat t2 = Some n2 \<and> n2 < n1) \<or>
    status t1 = Some Pending \<or> status t1 = Some Shelved \<or>
    status t2 = Some Pending \<or> status t2 = Some Shelved \<longrightarrow>
      resolve status [t1, t2] = Inl InvalidRevisionSpec)"
  by (auto simp: resolve_def resolve_two_def plain_range_def)

theorem resolve_two_tokens_witness:
  "resolve test_changes [''99'', ''100''] =
     Inr \<lparr>base = Concrete ''99'', tip = Concrete ''100'', parent_base = None, commit_id = None\<rparr> \<and>
   resolve test_changes [''100'', ''99''] = Inl InvalidRevisionSpec \<and>
   resolve test_changes [''99'', ''101''] = Inl InvalidRevisionSpec \<and>
   resolve test_changes [''102'', ''100''] = Inl InvalidRevisionSpec"
  using resolve_two_tokens [of test_changes "''99''" "''100''" 99 100]
    resolve_two_tokens [of test_changes "''100''" "''99''" 100 99]
    resolve_two_tokens [of test_changes "''99''" "''101''" 99 101]
    resolve_two_tokens [of test_changes "''102''" "''100''" 102 100]
  by (simp add: test_changes_def)

section \<open>Move detection in diff synthesis (the specification's DiffSynthesizer)\<close>

text \<open>
  Modelled from the spec: the ChangedFileRecord of section 3 (the code of
  \<open>PerforceClient.diff\<close> is missing; \<open>test_p4.py\<close> exercises it). An action that the
  synthesizer does not know is \<open>Unrecognized\<close>.
\<close>

datatype action = Add | Edit | Delete | MoveAdd | MoveDelete | Unrecognized string

record changed_file_record =
  depot_path :: string
  revision :: string
  action :: action
  change_id :: string

text \<open>
  Modelled from the spec: what the synthesizer consults (the code of
  \<open>PerforceClient.diff\<close> is missing). \<open>moved_file\<close> is the MoveLink association of
  section 3, from a source path to its destination path, read from the
  filesystem-location metadata; \<open>old_snapshot\<close> and \<open>new_snapshot\<close> are the SnapshotStore
  after section 4.2, step 1, which keeps per path the two snapshots needed, the content
  before the change and the content of the file's current state; \<open>text_diff\<close> is the
  textual unified-diff computation of section 4.2, step 3, which returns the hunk lines
  of two contents and no line when they are equal; \<open>timestamp\<close> is the synthesized
  timestamp of the new-file line.
\<close>

record diff_backend =
  moved_file :: "string \<Rightarrow> string option"
  old_snapshot :: "string \<Rightarrow> string"
  new_snapshot :: "string \<Rightarrow> string"
  text_diff :: "string \<Rightarrow> string \<Rightarrow> string list"
  timestamp :: string

text \<open>
  Modelled from the spec: the lines of a diff fragment (the code of
  \<open>PerforceClient.diff\<close> is missing). A fragment is the list of its lines; the formats
  are those of the expected output of \<open>test_diff_with_moved_files_cap_on\<close>,
  \<open>test_diff_with_moved_files_cap_off\<close> and \<open>test_diff_with_pending_changelist\<close>: the
  file header carries the depot path as label, the old side with \<open>#\<close> and its revision
  (\<open>#0\<close> for an added file), the new side with the timestamp; a combined fragment
  starts with the lines \<open>Moved from:\<close> and \<open>Moved to:\<close> when the content changed, and
  is the single header \<open>==== src#rev ==MV== dst ====\<close> followed by an empty line when
  the content is unchanged.
\<close>

definition line :: "string \<Rightarrow> string" where
  "line s = s @ [CHR 0x0A]"

definition file_header :: "string \<Rightarrow> string \<Rightarrow> string \<Rightarrow> string \<Rightarrow> string list" where
  "file_header old_path old_rev new_path ts =
     [line (''--- '' @ old_path @ [CHR 0x09] @ old_path @ ''#'' @ old_rev),
      line (''+++ '' @ new_path @ [CHR 0x09] @ ts)]"

definition moved_lines :: "string \<Rightarrow> string \<Rightarrow> string list" where
  "moved_lines src dst = [line (''Moved from: '' @ src), line (''Moved to: '' @ dst)]"

definition moved_header :: "string \<Rightarrow> string \<Rightarrow> string \<Rightarrow> string list" where
  "moved_header src old_rev dst =
     [line (''==== '' @ src @ ''#'' @ old_rev @ '' ==MV== '' @ dst @ '' ====''), line []]"

text \<open>
  Modelled from the spec: the fragment of an addition, of a deletion, of an edit and of
  a move (section 4.2, steps 1, 2, 3 and 5; the code of \<open>PerforceClient.diff\<close> is
  missing). For an add the old content is the empty file, for a delete the new content
  is the empty file; both keep their file header when the diff has no hunk. An edit
  without a hunk gives no fragment. A move compares the old content of the source path
  with the new content of the destination path.
\<close>

definition added :: "diff_backend \<Rightarrow> changed_file_record \<Rightarrow> string list" where
  "added b r =
     file_header (depot_path r) ''0'' (depot_path r) (timestamp b) @
     text_diff b [] (new_snapshot b (depot_path r))"

definition deleted :: "diff_backend \<Rightarrow> changed_file_record \<Rightarrow> string list" where
  "deleted b r =
     file_header (depot_path r) (revision r) (depot_path r) (timestamp b) @
     text_diff b (old_snapshot b (depot_path r)) []"

definition edited :: "diff_backend \<Rightarrow> changed_file_record \<Rightarrow> string list list" where
  "edited b r =
     (let hunks = text_diff b (old_snapshot b (depot_path r)) (new_snapshot b (depot_path r))
      in if hunks = [] then []
         else [file_header (depot_path r) (revision r) (depot_path r) (timestamp b) @ hunks])"

definition moved :: "diff_backend \<Rightarrow> changed_file_record \<Rightarrow> string \<Rightarrow> string list" where
  "moved b src dst =
     (let hunks = text_diff b (old_snapshot b (depot_path src)) (new_snapshot b dst)
      in if hunks = [] then moved_header (depot_path src) (revision src) dst
         else moved_lines (depot_path src) dst @
              file_header (depot_path src) (revision src) dst (timestamp b) @
              hunks)"

definition is_move_add_of :: "string \<Rightarrow> changed_file_record \<Rightarrow> bool" where
  "is_move_add_of dst r \<longleftrightarrow> action r = MoveAdd \<and> depot_path r = dst"

definition is_move_delete_to ::
  "(string \<Rightarrow> string option) \<Rightarrow> string \<Rightarrow> changed_file_record \<Rightarrow> bool" where
  "is_move_delete_to link dst r \<longleftrightarrow>
     action r = MoveDelete \<and> link (depot_path r) = Some dst"

text \<open>
  Modelled from the spec: the fragments that one record contributes (section 4.2, steps
  1 to 3; the code of \<open>PerforceClient.diff\<close> is missing). The MoveLink is consulted only
  when move detection is enabled. With move detection, a move_delete record whose link
  names the path of a move_add record of the changeset gives the one combined fragment;
  that move_add record gives none of its own. Without it, each side is an independent
  deletion or addition. An unrecognized action is treated as an edit.
\<close>

definition fragments_of ::
  "bool \<Rightarrow> diff_backend \<Rightarrow> changed_file_record list \<Rightarrow> changed_file_record \<Rightarrow>
     string list list"
where
  "fragments_of move_detection_enabled b changed_files r =
     (case action r of
        Add \<Rightarrow> [added b r]
      | Delete \<Rightarrow> [deleted b r]
      | MoveDelete \<Rightarrow>
          (if move_detection_enabled then
             (case moved_file b (depot_path r) of
                None \<Rightarrow> [deleted b r]
              | Some dst \<Rightarrow>
                  if list_ex (is_move_add_of dst) changed_files then [moved b r dst]
                  else [deleted b r])
           else [deleted b r])
      | MoveAdd \<Rightarrow>
          (if move_detection_enabled \<and>
              list_ex (is_move_delete_to (moved_file b) (depot_path r)) changed_files
           then []
           else [added b r])
      | _ \<Rightarrow> edited b r)"

text \<open>
  Modelled from the spec: \<open>synthesize\<close> (section 4.2, step 4; the code of
  \<open>PerforceClient.diff\<close> is missing): the fragments of all records, in the order of
  \<open>changed_files\<close>. The diff is the concatenation of their lines.
\<close>

definition synthesize ::
  "bool \<Rightarrow> diff_backend \<Rightarrow> changed_file_record list \<Rightarrow> string list list"
where
  "synthesize move_detection_enabled b changed_files =
     concat (map (fragments_of move_detection_enabled b changed_files) changed_files)"

text \<open>
  The changeset, the metadata and the file contents of \<open>_test_diff_with_moved_files\<close>,
  with the unified diff of two files of at most one line and the timestamp that the
  test normalizes to.
\<close>

definition readme :: changed_file_record where
  "readme = \<lparr>depot_path = ''//mydepot/test/README'', revision = ''2'',
             action = MoveDelete, change_id = ''12345''\<rparr>"

definition readme_new :: changed_file_record where
  "readme_new = \<lparr>depot_path = ''//mydepot/test/README-new'', revision = ''1'',
                 action = MoveAdd, change_id = ''12345''\<rparr>"

definition copying :: changed_file_record where
  "copying = \<lparr>depot_path = ''//mydepot/test/COPYING'', revision = ''2'',
              action = MoveDelete, change_id = ''12345''\<rparr>"

definition copying_new :: changed_file_record where
  "copying_new = \<lparr>depot_path = ''//mydepot/test/COPYING-new'', revision = ''1'',
                  action = MoveAdd, change_id = ''12345''\<rparr>"

definition fstat_moved_file :: "string \<Rightarrow> string option" where
  "fstat_moved_file path =
     (if path = ''//mydepot/test/README'' then Some ''//mydepot/test/README-new''
      else if path = ''//mydepot/test/COPYING'' then Some ''//mydepot/test/COPYING-new''
      else None)"

definition repo_text :: "string \<Rightarrow> string" where
  "repo_text path =
     (if path = ''//mydepot/test/README'' then line ''This is a test.''
      else if path = ''//mydepot/test/README-new'' then line ''This is a mess.''
      else line ''Copyright 2013 Joe User.'')"

definition one_line_diff :: "string \<Rightarrow> string \<Rightarrow> string list" where
  "one_line_diff old new =
     (if old = new then []
      else [line (''@@ -'' @ (if old = [] then ''0,0'' else ''1'') @
                  '' +'' @ (if new = [] then ''0,0'' else ''1'') @ '' @@'')] @
           (if old = [] then [] else [''-'' @ old]) @
           (if new = [] then [] else [''+'' @ new]))"

definition test_backend :: diff_backend where
  "test_backend =
     \<lparr>moved_file = fstat_moved_file, old_snapshot = repo_text, new_snapshot = repo_text,
      text_diff = one_line_diff, timestamp = ''2022-01-02 12:34:56''\<rparr>"

lemma test_records [simp]:
  "depot_path readme = ''//mydepot/test/README''" "revision readme = ''2''"
  "action readme = MoveDelete"
  "depot_path readme_new = ''//mydepot/test/README-new''" "revision readme_new = ''1''"
  "action readme_new = MoveAdd"
  "depot_path copying = ''//mydepot/test/COPYING''" "revision copying = ''2''"
  "action copying = MoveDelete"
  "depot_path copying_new = ''//mydepot/test/COPYING-new''" "revision copying_new = ''1''"
  "action copying_new = MoveAdd"
  by (simp_all add: readme_def readme_new_def copying_def copying_new_def)

lemma test_backend_simps [simp]:
  "moved_file test_backend = fstat_moved_file"
  "old_snapshot test_backend = repo_text" "new_snapshot test_backend = repo_text"
  "text_diff test_backend = one_line_diff" "timestamp test_backend = ''2022-01-02 12:34:56''"
  by (simp_all add: test_backend_def)

lemma test_diffs [simp]:
  "one_line_diff (repo_text ''//mydepot/test/README'') (repo_text ''//mydepot/test/README-new'') =
     [line ''@@ -1 +1 @@'', ''-'' @ line ''This is a test.'', ''+'' @ line ''This is a mess.'']"
  "one_line_diff (repo_text ''//mydepot/test/README'') [] =
     [line ''@@ -1 +0,0 @@'', ''-'' @ line ''This is a test.'']"
  "one_line_diff [] (repo_text ''//mydepot/test/README-new'') =
     [line ''@@ -0,0 +1 @@'', ''+'' @ line ''This is a mess.'']"
  "one_line_diff (repo_text ''//mydepot/test/COPYING'') (repo_text ''//mydepot/test/COPYING-new'') = []"
  "one_line_diff (repo_text ''//mydepot/test/COPYING'') [] =
     [line ''@@ -1 +0,0 @@'', ''-'' @ line ''Copyright 2013 Joe User.'']"
  "one_line_diff [] (repo_text ''//mydepot/test/COPYING-new'') =
     [line ''@@ -0,0 +1 @@'', ''+'' @ line ''Copyright 2013 Joe User.'']"
  by (simp_all add: one_line_diff_def repo_text_def line_def)

text \<open>
  The model gives the expected diff of \<open>test_diff_with_moved_files_cap_on\<close> and of
  \<open>test_diff_with_moved_files_cap_off\<close>, line for line.
\<close>

lemma test_synthesize_cap_on:
  "synthesize True test_backend [readme, readme_new, copying, copying_new] =
     [[line ''Moved from: //mydepot/test/README'',
       line ''Moved to: //mydepot/test/README-new'',
       line (''--- //mydepot/test/README'' @ [CHR 0x09] @ ''//mydepot/test/README#2''),
       line (''+++ //mydepot/test/README-new'' @ [CHR 0x09] @ ''2022-01-02 12:34:56''),
       line ''@@ -1 +1 @@'',
       line ''-This is a test.'',
       line ''+This is a mess.''],
      [line ''==== //mydepot/test/COPYING#2 ==MV== //mydepot/test/COPYING-new ===='',
       line []]]"
  by (simp add: synthesize_def fragments_of_def is_move_add_of_def is_move_delete_to_def
      fstat_moved_file_def moved_def moved_lines_def moved_header_def file_header_def
      line_def)

lemma test_synthesize_cap_off:
  "synthesize False test_backend [readme, readme_new, copying, copying_new] =
     [[line (''--- //mydepot/test/README'' @ [CHR 0x09] @ ''//mydepot/test/README#2''),
       line (''+++ //mydepot/test/README'' @ [CHR 0x09] @ ''2022-01-02 12:34:56''),
       line ''@@ -1 +0,0 @@'',
       line ''-This is a test.''],
      [line (''--- //mydepot/test/README-new'' @ [CHR 0x09] @ ''//mydepot/test/README-new#0''),
       line (''+++ //mydepot/test/README-new'' @ [CHR 0x09] @ ''2022-01-02 12:34:56''),
       line ''@@ -0,0 +1 @@'',
       line ''+This is a mess.''],
      [line (''--- //mydepot/test/COPYING'' @ [CHR 0x09] @ ''//mydepot/test/COPYING#2''),
       line (''+++ //mydepot/test/COPYING'' @ [CHR 0x09] @ ''2022-01-02 12:34:56''),
       line ''@@ -1 +0,0 @@'',
       line ''-Copyright 2013 Joe User.''],
      [line (''--- //mydepot/test/COPYING-new'' @ [CHR 0x09] @ ''//mydepot/test/COPYING-new#0''),
       line (''+++ //mydepot/test/COPYING-new'' @ [CHR 0x09] @ ''2022-01-02 12:34:56''),
       line ''@@ -0,0 +1 @@'',
       line ''+Copyright 2013 Joe User.'']]"
  by (simp add: synthesize_def fragments_of_def is_move_add_of_def is_move_delete_to_def
      fstat_moved_file_def added_def deleted_def file_header_def line_def)

text \<open>
  C7 (as stated): with move detection, every linked move_delete/move_add pair would give
  one combined fragment carrying the \<open>Moved from\<close> and \<open>Moved to\<close> annotations. The
  COPYING pair of \<open>test_diff_with_moved_files_cap_on\<close> is linked and its content is
  unchanged: its one fragment is the \<open>==MV==\<close> header, and no line of it starts with
  \<open>Moved from:\<close> or \<open>Moved to:\<close>.
\<close>

theorem move_pair_unchanged_counterexample:
  "synthesize True test_backend [copying, copying_new] =
     [[line ''==== //mydepot/test/COPYING#2 ==MV== //mydepot/test/COPYING-new ===='',
       line []]] \<and>
   \<not> list_ex (prefix ''Moved from: '')
       (concat (synthesize True test_backend [copying, copying_new])) \<and>
   \<not> list_ex (prefix ''Moved to: '')
       (concat (synthesize True test_backend [copying, copying_new]))"
proof -
  have s: "synthesize True test_backend [copying, copying_new] =
     [[line ''==== //mydepot/test/COPYING#2 ==MV== //mydepot/test/COPYING-new ===='',
       line []]]"
    by (simp add: synthesize_def fragments_of_def is_move_add_of_def is_move_delete_to_def
        fstat_moved_file_def moved_def moved_header_def)
  show ?thesis unfolding s by (simp add: line_def)
qed

text \<open>
  C7 (amended): a move_delete record and a move_add record of a changeset that the
  metadata links give, with move detection, one combined fragment: the \<open>Moved from\<close>
  and \<open>Moved to\<close> lines, the file header from the old path to the new path and the hunks
  when the content changed, and the single header \<open>==== src#rev ==MV== dst ====\<close> when
  it is unchanged. Without move detection they give two independent fragments, the
  deletion of the old path and the addition of the new path with its full content, each
  a plain file header and its hunks with no move annotation.
\<close>

theorem move_pair_fragments:
  assumes "src \<in> set changed_files" and "dst \<in> set changed_files"
    and "action src = MoveDelete" and "action dst = MoveAdd"
    and "moved_file b (depot_path src) = Some (depot_path dst)"
  shows "fragments_of True b changed_files src @ fragments_of True b changed_files dst =
           [if text_diff b (old_snapshot b (depot_path src)) (new_snapshot b (depot_path dst)) = []
            then moved_header (depot_path src) (revision src) (depot_path dst)
            else moved_lines (depot_path src) (depot_path dst) @
                 file_header (depot_path src) (revision src) (depot_path dst) (timestamp b) @
                 text_diff b (old_snapshot b (depot_path src)) (new_snapshot b (depot_path dst))] \<and>
         fragments_of False b changed_files src @ fragments_of False b changed_files dst =
           [file_header (depot_path src) (revision src) (depot_path src) (timestamp b) @
              text_diff b (old_snapshot b (depot_path src)) [],
            file_header (depot_path dst) ''0'' (depot_path dst) (timestamp b) @
              text_diff b [] (new_snapshot b (depot_path dst))]"
proof -
  have f: "list_ex (is_move_add_of (depot_path dst)) changed_files"
    using assms(2,4) by (auto simp: list_ex_iff is_move_add_of_def)
  have e: "list_ex (is_move_delete_to (moved_file b) (depot_path dst)) changed_files"
    using assms(1,3,5) by (auto simp: list_ex_iff is_move_delete_to_def)
  have a: "fragments_of True b changed_files src = [moved b src (depot_path dst)]"
    using assms(3,5) f by (simp add: fragments_of_def)
  have c: "fragments_of True b changed_files dst = []"
    using assms(4) e by (simp add: fragments_of_def)
  have d: "fragments_of False b changed_files src = [deleted b src]"
    using assms(3) by (simp add: fragments_of_def)
  have g: "fragments_of False b changed_files dst = [added b dst]"
    using assms(4) by (simp add: fragments_of_def)
  show ?thesis
    unfolding a c d g by (simp add: moved_def deleted_def added_def Let_def)
qed

theorem move_pair_fragments_witness:
  "fragments_of True test_backend [readme, readme_new, copying, copying_new] readme @
   fragments_of True test_backend [readme, readme_new, copying, copying_new] readme_new =
     [[line ''Moved from: //mydepot/test/README'',
       line ''Moved to: //mydepot/test/README-new'',
       line (''--- //mydepot/test/README'' @ [CHR 0x09] @ ''//mydepot/test/README#2''),
       line (''+++ //mydepot/test/README-new'' @ [CHR 0x09] @ ''2022-01-02 12:34:56''),
       line ''@@ -1 +1 @@'',
       line ''-This is a test.'',
       line ''+This is a mess.'']] \<and>
   fragments_of True test_backend [readme, readme_new, copying, copying_new] copying @
   fragments_of True test_backend [readme, readme_new, copying, copying_new] copying_new =
     [[line ''==== //mydepot/test/COPYING#2 ==MV== //mydepot/test/COPYING-new ===='',
       line []]] \<and>
   fragments_of False test_backend [readme, readme_new, copying, copying_new] readme @
   fragments_of False test_backend [readme, readme_new, copying, copying_new] readme_new =
     [[line (''--- //mydepot/test/README'' @ [CHR 0x09] @ ''//mydepot/test/README#2''),
       line (''+++ //mydepot/test/README'' @ [CHR 0x09] @ ''2022-01-02 12:34:56''),
       line ''@@ -1 +0,0 @@'',
       line ''-This is a test.''],
      [line (''--- //mydepot/test/README-new'' @ [CHR 0x09] @ ''//mydepot/test/README-new#0''),
       line (''+++ //mydepot/test/README-new'' @ [CHR 0x09] @ ''2022-01-02 12:34:56''),
       line ''@@ -0,0 +1 @@'',
       line ''+This is a mess.'']]"
proof -
  have r: "fragments_of True test_backend [readme, readme_new, copying, copying_new] readme @
           fragments_of True test_backend [readme, readme_new, copying, copying_new] readme_new =
             [moved_lines ''//mydepot/test/README'' ''//mydepot/test/README-new'' @
              file_header ''//mydepot/test/README'' ''2'' ''//mydepot/test/README-new''
                ''2022-01-02 12:34:56'' @
              one_line_diff (repo_text ''//mydepot/test/README'')
                (repo_text ''//mydepot/test/README-new'')] \<and>
           fragments_of False test_backend [readme, readme_new, copying, copying_new] readme @
           fragments_of False test_backend [readme, readme_new, copying, copying_new] readme_new =
             [file_header ''//mydepot/test/README'' ''2'' ''//mydepot/test/README''
                ''2022-01-02 12:34:56'' @ one_line_diff (repo_text ''//mydepot/test/README'') [],
              file_header ''//mydepot/test/README-new'' ''0'' ''//mydepot/test/README-new''
                ''2022-01-02 12:34:56'' @
                one_line_diff [] (repo_text ''//mydepot/test/README-new'')]"
    using move_pair_fragments [of readme "[readme, readme_new, copying, copying_new]" readme_new
        test_backend]
    by (simp add: fstat_moved_file_def)
  have c: "fragments_of True test_backend [readme, readme_new, copying, copying_new] copying @
           fragments_of True test_backend [readme, readme_new, copying, copying_new] copying_new =
             [moved_header ''//mydepot/test/COPYING'' ''2'' ''//mydepot/test/COPYING-new'']"
    using move_pair_fragments [of copying "[readme, readme_new, copying, copying_new]" copying_new
        test_backend]
    by (simp add: fstat_moved_file_def)
  show ?thesis
    unfolding r [THEN conjunct1] r [THEN conjunct2] c
    by (simp add: moved_lines_def moved_header_def file_header_def line_def)
qed

end
